theory Spec2Isabelle
  imports Main "HOL-Library.Word" "HOL-Library.AList" "HOL-Library.Sublist"
begin

unbundle bit_operations_syntax

section \<open>Exceptions and times\<close>

text \<open>
  The Python exceptions that the two source files can meet.  \<open>RequestException\<close> stands
  for \<open>requests.RequestException\<close> and all its subclasses and carries \<open>str(e)\<close>; it is
  the only class that \<open>_send_message\<close> catches.  Every constructor is a subclass of
  \<open>Exception\<close>, which is what the polling loop of \<open>main\<close> catches.
\<close>

datatype exn =
    RequestException string
  | AttributeError string
  | TypeError string
  | OtherException string

text \<open>
  A \<open>datetime\<close> is either naive (a wall-clock reading without zone) or aware.  Both carry
  microseconds: for an aware value the microseconds since the epoch of the instant it
  denotes, for a naive value the same count read off its fields as they stand.
\<close>

datatype datetime = Naive int | Aware int

text \<open>\<open>last_checked.replace(tzinfo=pytz.UTC)\<close>, applied only when \<open>tzinfo is None\<close>
  (lines 127-128 of \<open>latest_paper_bot.py\<close>).\<close>

fun ensure_utc :: "datetime \<Rightarrow> datetime" where
  "ensure_utc (Naive w) = Aware w"
| "ensure_utc (Aware i) = Aware i"

fun instant :: "datetime \<Rightarrow> int" where
  "instant (Naive w) = w"
| "instant (Aware i) = i"

text \<open>\<open>datetime(*entry.published_parsed[:6], tzinfo=pytz.UTC)\<close>: the six fields of the
  parsed date, given here as the whole seconds since the epoch that they denote in UTC;
  the microsecond field of the result is 0.\<close>

definition utc_datetime :: "int \<Rightarrow> datetime" where
  "utc_datetime secs = Aware (secs * 1000000)"

section \<open>The feed poller (\<open>latest_paper_bot.py\<close>)\<close>

text \<open>
  What \<open>entry.published_parsed\<close> is: the entry has no such attribute (an item without a
  date; reading it raises \<open>AttributeError\<close>), the attribute is \<open>None\<close> (a date that could
  not be parsed; slicing it raises \<open>TypeError\<close>), or it is the parsed date.
\<close>

datatype parsed_time = Absent | Unparsed | Parsed (parsed_secs: int)

text \<open>
  An entry of \<open>feed.entries\<close>, as far as \<open>get_new_notifications\<close> reads it.  A field that
  the feed did not provide is \<open>None\<close>: reading it as an attribute raises
  \<open>AttributeError\<close>.
\<close>

record entry =
  id_field :: "string option"
  link :: "string option"
  published_parsed :: parsed_time
  title :: "string option"
  summary :: "string option"

text \<open>The dictionary appended to \<open>new_notifications\<close> (lines 153-158).\<close>

record notification =
  n_title :: string
  n_content :: string
  n_published :: datetime
  n_id :: string

text \<open>\<open>entry.get('id', entry.link)\<close>: Python evaluates the default \<open>entry.link\<close> before
  the call, so an entry without a link raises even when it has an id.\<close>

definition entry_id :: "entry \<Rightarrow> exn + string" where
  "entry_id e =
     (case link e of
        None \<Rightarrow> Inl (AttributeError ''link'')
      | Some l \<Rightarrow> Inr (case id_field e of None \<Rightarrow> l | Some i \<Rightarrow> i))"

text \<open>The \<open>for entry in feed.entries\<close> loop (lines 136-158); \<open>acc\<close> is
  \<open>new_notifications\<close>.  In debug mode the title is read for the log before the
  comparison.  The first exception ends the loop.\<close>

fun poll_entries ::
  "bool \<Rightarrow> datetime \<Rightarrow> string set \<Rightarrow> entry list \<Rightarrow> notification list \<Rightarrow> exn + notification list"
where
  "poll_entries debug last_checked sent_entries [] acc = Inr acc"
| "poll_entries debug last_checked sent_entries (e # es) acc =
     (case entry_id e of
        Inl x \<Rightarrow> Inl x
      | Inr eid \<Rightarrow>
          if eid \<in> sent_entries then poll_entries debug last_checked sent_entries es acc
          else
            (case published_parsed e of
               Absent \<Rightarrow> Inl (AttributeError ''published_parsed'')
             | Unparsed \<Rightarrow> Inl (TypeError ''published_parsed'')
             | Parsed secs \<Rightarrow>
                 let published_time = utc_datetime secs in
                 if debug \<and> title e = None then Inl (AttributeError ''title'')
                 else if instant published_time > instant last_checked then
                   (case title e of
                      None \<Rightarrow> Inl (AttributeError ''title'')
                    | Some t \<Rightarrow>
                        (case summary e of
                           None \<Rightarrow> Inl (AttributeError ''summary'')
                         | Some s \<Rightarrow>
                             poll_entries debug last_checked sent_entries es
                               (acc @ [\<lparr>n_title = t, n_content = s,
                                        n_published = published_time, n_id = eid\<rparr>])))
                 else poll_entries debug last_checked sent_entries es acc))"

text \<open>
  \<open>get_new_notifications(rss_url, last_checked, sent_entries, debug)\<close>.  The outcome of
  \<open>feedparser.parse(rss_url)\<close> is given as \<open>fetched\<close>: the entries of the feed, or the
  exception the call raised.  The set \<open>sent_entries\<close> is a mutable object shared with the
  caller, so the function returns it next to its result, as the call leaves it.
\<close>

definition get_new_notifications ::
  "(exn + entry list) \<Rightarrow> datetime \<Rightarrow> string set \<Rightarrow> bool \<Rightarrow> (exn + notification list) \<times> string set"
where
  "get_new_notifications fetched last_checked sent_entries debug =
     (case fetched of
        Inl x \<Rightarrow> (Inl x, sent_entries)
      | Inr entries \<Rightarrow>
          (poll_entries debug (ensure_utc last_checked) sent_entries entries [], sent_entries))"

subsection \<open>The poller as the specification words it\<close>

text \<open>The specification's \<open>pollNew\<close>: the entries whose id is not in \<open>sentIds\<close> and
  whose published time is strictly after the watermark, in feed order.  These three
  definitions follow the specification and are compared with the code below.\<close>

definition spec_id :: "entry \<Rightarrow> string" where
  "spec_id e = (case id_field e of Some i \<Rightarrow> i | None \<Rightarrow> the (link e))"

definition spec_is_new :: "datetime \<Rightarrow> string set \<Rightarrow> entry \<Rightarrow> bool" where
  "spec_is_new watermark sentIds e \<longleftrightarrow>
     spec_id e \<notin> sentIds \<and>
     instant (utc_datetime (parsed_secs (published_parsed e))) > instant (ensure_utc watermark)"

definition spec_record :: "entry \<Rightarrow> notification" where
  "spec_record e =
     \<lparr>n_title = the (title e), n_content = the (summary e),
      n_published = utc_datetime (parsed_secs (published_parsed e)), n_id = spec_id e\<rparr>"

section \<open>Bytes, SHA-256, HMAC and Base64 (the library calls of \<open>_generate_sign\<close>)\<close>

text \<open>
  \<open>_generate_sign\<close> calls \<open>str.encode("utf-8")\<close>, \<open>hmac.new(..., digestmod=hashlib.sha256)\<close>
  and \<open>base64.b64encode\<close> of the Python standard library.  They are written out here after
  their standards (FIPS 180-4, RFC 2104, RFC 4648, RFC 3629) so that a signature can be
  computed on a concrete secret.  A byte is an \<open>int\<close> from 0 to 255 and a 32-bit word an
  \<open>int\<close> from 0 to \<open>2^32 - 1\<close>, with the wrap-around written as \<open>mod 2^32\<close>.
\<close>

type_synonym bytes = "int list"
type_synonym u32 = int

definition trunc32 :: "int \<Rightarrow> u32" where
  "trunc32 x = x mod 4294967296"

definition rotr :: "nat \<Rightarrow> u32 \<Rightarrow> u32" where
  "rotr n x = (x div 2 ^ n) OR trunc32 (x * 2 ^ (32 - n))"

definition Ch :: "u32 \<Rightarrow> u32 \<Rightarrow> u32 \<Rightarrow> u32" where
  "Ch x y z = (x AND y) XOR ((4294967295 - x) AND z)"

definition Maj :: "u32 \<Rightarrow> u32 \<Rightarrow> u32 \<Rightarrow> u32" where
  "Maj x y z = (x AND y) XOR (x AND z) XOR (y AND z)"

definition Sigma0 :: "u32 \<Rightarrow> u32" where
  "Sigma0 x = rotr 2 x XOR rotr 13 x XOR rotr 22 x"

definition Sigma1 :: "u32 \<Rightarrow> u32" where
  "Sigma1 x = rotr 6 x XOR rotr 11 x XOR rotr 25 x"

definition sigma0 :: "u32 \<Rightarrow> u32" where
  "sigma0 x = rotr 7 x XOR rotr 18 x XOR (x div 2 ^ 3)"

definition sigma1 :: "u32 \<Rightarrow> u32" where
  "sigma1 x = rotr 17 x XOR rotr 19 x XOR (x div 2 ^ 10)"

definition K256 :: "u32 list" where
  "K256 = [
  0x428a2f98, 0x71374491, 0xb5c0fbcf, 0xe9b5dba5, 0x3956c25b, 0x59f111f1, 0x923f82a4, 0xab1c5ed5,
  0xd807aa98, 0x12835b01, 0x243185be, 0x550c7dc3, 0x72be5d74, 0x80deb1fe, 0x9bdc06a7, 0xc19bf174,
  0xe49b69c1, 0xefbe4786, 0x0fc19dc6, 0x240ca1cc, 0x2de92c6f, 0x4a7484aa, 0x5cb0a9dc, 0x76f988da,
  0x983e5152, 0xa831c66d, 0xb00327c8, 0xbf597fc7, 0xc6e00bf3, 0xd5a79147, 0x06ca6351, 0x14292967,
  0x27b70a85, 0x2e1b2138, 0x4d2c6dfc, 0x53380d13, 0x650a7354, 0x766a0abb, 0x81c2c92e, 0x92722c85,
  0xa2bfe8a1, 0xa81a664b, 0xc24b8b70, 0xc76c51a3, 0xd192e819, 0xd6990624, 0xf40e3585, 0x106aa070,
  0x19a4c116, 0x1e376c08, 0x2748774c, 0x34b0bcb5, 0x391c0cb3, 0x4ed8aa4a, 0x5b9cca4f, 0x682e6ff3,
  0x748f82ee, 0x78a5636f, 0x84c87814, 0x8cc70208, 0x90befffa, 0xa4506ceb, 0xbef9a3f7, 0xc67178f2]"

type_synonym hstate = "u32 \<times> u32 \<times> u32 \<times> u32 \<times> u32 \<times> u32 \<times> u32 \<times> u32"

definition H0 :: hstate where
  "H0 = (0x6a09e667, 0xbb67ae85, 0x3c6ef372, 0xa54ff53a,
         0x510e527f, 0x9b05688c, 0x1f83d9ab, 0x5be0cd19)"

fun round :: "hstate \<Rightarrow> (u32 \<times> u32) \<Rightarrow> hstate" where
  "round (a, b, c, d, e, f, g, h) (k, w) =
     (let t1 = trunc32 (h + Sigma1 e + Ch e f g + k + w);
          t2 = trunc32 (Sigma0 a + Maj a b c)
      in (trunc32 (t1 + t2), a, b, c, trunc32 (d + t1), e, f, g))"

text \<open>The 64 rounds of one block, one per constant: \<open>ws\<close> holds the sixteen words of
  the message schedule from the current one on, and each round appends the next.\<close>

fun rounds :: "u32 list \<Rightarrow> u32 list \<Rightarrow> hstate \<Rightarrow> hstate" where
  "rounds [] ws s = s"
| "rounds (k # ks) ws s =
     rounds ks (tl ws @ [trunc32 (sigma1 (ws ! 14) + ws ! 9 + sigma0 (ws ! 1) + ws ! 0)])
       (round s (k, ws ! 0))"

fun add_state :: "hstate \<Rightarrow> hstate \<Rightarrow> hstate" where
  "add_state (a, b, c, d, e, f, g, h) (a', b', c', d', e', f', g', h') =
     (trunc32 (a + a'), trunc32 (b + b'), trunc32 (c + c'), trunc32 (d + d'),
      trunc32 (e + e'), trunc32 (f + f'), trunc32 (g + g'), trunc32 (h + h'))"

definition compress :: "hstate \<Rightarrow> u32 list \<Rightarrow> hstate" where
  "compress hs block = add_state hs (rounds K256 block hs)"

fun words_of :: "bytes \<Rightarrow> u32 list" where
  "words_of (a # b # c # d # rest) = (((a * 256 + b) * 256 + c) * 256 + d) # words_of rest"
| "words_of _ = []"

definition bytes_of_u32 :: "u32 \<Rightarrow> bytes" where
  "bytes_of_u32 w = [w div 16777216, (w div 65536) mod 256, (w div 256) mod 256, w mod 256]"

fun state_bytes :: "hstate \<Rightarrow> bytes" where
  "state_bytes (a, b, c, d, e, f, g, h) = concat (map bytes_of_u32 [a, b, c, d, e, f, g, h])"

definition be64_bytes :: "int \<Rightarrow> bytes" where
  "be64_bytes n = map (\<lambda>i. (n div 256 ^ i) mod 256) [7, 6, 5, 4, 3, 2, 1, 0]"

definition pad :: "bytes \<Rightarrow> bytes" where
  "pad m = m @ [128] @ replicate ((119 - length m mod 64) mod 64) 0
             @ be64_bytes (8 * int (length m))"

fun hash_blocks :: "nat \<Rightarrow> bytes \<Rightarrow> hstate \<Rightarrow> hstate" where
  "hash_blocks 0 bs hs = hs"
| "hash_blocks (Suc n) bs hs =
     hash_blocks n (drop 64 bs) (compress hs (words_of (take 64 bs)))"

definition sha256 :: "bytes \<Rightarrow> bytes" where
  "sha256 m = (let p = pad m in state_bytes (hash_blocks (length p div 64) p H0))"

text \<open>HMAC with SHA-256 (block size 64): the key is hashed when longer than a block and
  filled with zero bytes to a block.\<close>

definition hmac_sha256 :: "bytes \<Rightarrow> bytes \<Rightarrow> bytes" where
  "hmac_sha256 key msg =
     (let k = (if length key > 64 then sha256 key else key);
          kb = k @ replicate (64 - length k) 0;
          inner = sha256 (map (\<lambda>b. b XOR 54) kb @ msg)
      in sha256 (map (\<lambda>b. b XOR 92) kb @ inner))"

text \<open>\<open>hmac.new(key, msg=None, digestmod=hashlib.sha256).digest()\<close>: without \<open>msg\<close> the
  object is never updated, and the digest is that of the empty message.\<close>

definition hmac_new_digest :: "bytes \<Rightarrow> bytes option \<Rightarrow> bytes" where
  "hmac_new_digest key msg = hmac_sha256 key (case msg of None \<Rightarrow> [] | Some m \<Rightarrow> m)"

definition b64chars :: string where
  "b64chars = ''ABCDEFGHIJKLMNOPQRSTUVWXYZabcdefghijklmnopqrstuvwxyz0123456789+/''"

definition b64char :: "int \<Rightarrow> char" where
  "b64char n = b64chars ! nat n"

text \<open>\<open>base64.b64encode(bs).decode('utf-8')\<close>: the encoding is ASCII, so the string has
  the characters of the encoded bytes.\<close>

fun b64encode :: "bytes \<Rightarrow> string" where
  "b64encode (a # b # c # rest) =
     [b64char (a div 4), b64char ((a mod 4) * 16 + b div 16),
      b64char ((b mod 16) * 4 + c div 64), b64char (c mod 64)] @ b64encode rest"
| "b64encode [a, b] =
     [b64char (a div 4), b64char ((a mod 4) * 16 + b div 16), b64char ((b mod 16) * 4),
      CHR ''='']"
| "b64encode [a] = [b64char (a div 4), b64char ((a mod 4) * 16), CHR ''='', CHR ''='']"
| "b64encode [] = []"

text \<open>\<open>s.encode("utf-8")\<close>.  A character of a \<open>string\<close> is a code point from 0 to 255:
  one byte below 128, two bytes from 128 on.\<close>

definition utf8 :: "string \<Rightarrow> bytes" where
  "utf8 s = concat (map (\<lambda>c. let n = of_char c in
                                if n < 128 then [n] else [192 + n div 64, 128 + n mod 64]) s)"

text \<open>\<open>str(n)\<close> of a Python integer: its decimal digits, with a minus sign when negative.\<close>

definition digit :: "int \<Rightarrow> char" where
  "digit d = ''0123456789'' ! nat d"

function dec :: "int \<Rightarrow> string" where
  "dec n = (if n < 10 then [digit n] else dec (n div 10) @ [digit (n mod 10)])"
  by pat_completeness auto
termination
  by (relation "measure nat") auto

declare dec.simps [simp del]

definition str_int :: "int \<Rightarrow> string" where
  "str_int n = (if n < 0 then CHR ''-'' # dec (- n) else dec n)"

section \<open>The webhook sender (\<open>FeishuRobotSender\<close>, both source files)\<close>

text \<open>JSON values; a Python \<open>dict\<close> is a list of pairs in insertion order.\<close>

datatype json =
    JNull
  | JBool bool
  | JInt int
  | JStr string
  | JList "json list"
  | JDict "(string \<times> json) list"

type_synonym dict = "(string \<times> json) list"

text \<open>\<open>d.update(other)\<close>: each pair of \<open>other\<close> in order; a key already in \<open>d\<close> keeps
  its place and takes the new value, a new key goes to the end.\<close>

definition dict_update :: "dict \<Rightarrow> dict \<Rightarrow> dict" where
  "dict_update d other = fold (\<lambda>(k, v). AList.update k v) other d"

record robot =
  webhook_url :: string
  secret :: "string option"

text \<open>
  \<open>_generate_sign\<close> (identical in both files).  \<open>clock\<close> is \<open>int(time.time())\<close>, read only
  when a secret is set.  \<open>not self.secret\<close> holds for \<open>None\<close> and for the empty string.
\<close>

definition generate_sign :: "robot \<Rightarrow> int \<Rightarrow> dict" where
  "generate_sign self clock =
     (case secret self of
        None \<Rightarrow> []
      | Some sec \<Rightarrow>
          if sec = [] then []
          else
            let timestamp = clock;
                string_to_sign = str_int timestamp @ [CHR 0x0A] @ sec;
                hmac_code = hmac_new_digest (utf8 string_to_sign) None;
                sign = b64encode hmac_code
            in [(''timestamp'', JStr (str_int timestamp)), (''sign'', JStr sign)])"

text \<open>
  What \<open>requests.post\<close> did: it raised, or it returned a response.  Of the response the
  code reads the status (in \<open>raise_for_status\<close>, with the reason and the URL for the
  message) and \<open>response.json()\<close>, which returns the parsed body or raises.
\<close>

record response =
  status_code :: int
  reason :: string
  url :: string
  json_result :: "exn + json"

datatype post_outcome = PostRaises exn | PostReturns response

text \<open>\<open>Response.raise_for_status()\<close> of the requests library: an \<open>HTTPError\<close> (a
  \<open>RequestException\<close>) for a status from 400 to 599, nothing otherwise.\<close>

definition raise_for_status :: "response \<Rightarrow> exn + unit" where
  "raise_for_status r =
     (if 400 \<le> status_code r \<and> status_code r < 500 then
        Inl (RequestException
               (str_int (status_code r) @ '' Client Error: '' @ reason r @ '' for url: '' @ url r))
      else if 500 \<le> status_code r \<and> status_code r < 600 then
        Inl (RequestException
               (str_int (status_code r) @ '' Server Error: '' @ reason r @ '' for url: '' @ url r))
      else Inr ())"

text \<open>
  The outcome of one call of \<open>_send_message\<close>: what the call returned or raised, the
  caller's dictionary as the call left it (\<open>payload.update\<close> changes it in place), and the
  JSON body handed to \<open>requests.post\<close>.
\<close>

record send_outcome =
  returned :: "exn + json"
  payload_after :: dict
  posted :: json

text \<open>\<open>_send_message\<close> (lines 96-110 of \<open>latest_paper_bot.py\<close>, 117-140 of
  \<open>feishubot_demo.py\<close>; the two differ only in a log line).  Only a \<open>RequestException\<close>
  is caught; any other exception leaves the call.\<close>

definition send_message :: "robot \<Rightarrow> int \<Rightarrow> post_outcome \<Rightarrow> dict \<Rightarrow> send_outcome" where
  "send_message self clock outcome payload =
     (let sign_params = generate_sign self clock;
          payload' = dict_update payload sign_params;
          tried =
            (case outcome of
               PostRaises e \<Rightarrow> Inl e
             | PostReturns r \<Rightarrow>
                 (case raise_for_status r of
                    Inl e \<Rightarrow> Inl e
                  | Inr _ \<Rightarrow> json_result r))
      in \<lparr>returned =
            (case tried of
               Inl (RequestException msg) \<Rightarrow>
                 Inr (JDict [(''error'', JStr msg), (''payload'', JDict payload')])
             | Inl e \<Rightarrow> Inl e
             | Inr v \<Rightarrow> Inr v),
          payload_after = payload',
          posted = JDict payload'\<rparr>)"

text \<open>The keys of a JSON object, and of the object a call returned (none when the call
  raised or returned something else).\<close>

fun keys_of :: "json \<Rightarrow> string list" where
  "keys_of (JDict d) = map fst d"
| "keys_of _ = []"

fun result_keys :: "exn + json \<Rightarrow> string list" where
  "result_keys (Inr v) = keys_of v"
| "result_keys (Inl e) = []"

fun join :: "string \<Rightarrow> string list \<Rightarrow> string" where
  "join sep [] = []"
| "join sep [x] = x"
| "join sep (x # y # ys) = x @ sep @ join sep (y # ys)"

text \<open>The text and the payload that \<open>send_text_message\<close> of \<open>feishubot_demo.py\<close> builds
  (lines 58-71).  \<open>if at_users\<close> fails for \<open>None\<close> and for the empty list.  The method of
  \<open>latest_paper_bot.py\<close> is the case without mentions.\<close>

definition text_body :: "string \<Rightarrow> string list option \<Rightarrow> bool \<Rightarrow> string" where
  \<open>text_body text at_users at_all =
     (let text1 =
            (case at_users of
               None \<Rightarrow> text
             | Some users \<Rightarrow>
                 if users = [] then text
                 else join '' '' (map (\<lambda>user_id. ''<at user_id="'' @ user_id @ ''"></at>'') users)
                        @ '' '' @ text)
      in if at_all then ''<at user_id="all"></at> '' @ text1 else text1)\<close>

definition text_payload :: "string \<Rightarrow> string list option \<Rightarrow> bool \<Rightarrow> dict" where
  "text_payload text at_users at_all =
     [(''msg_type'', JStr ''text''),
      (''content'', JDict [(''text'', JStr (text_body text at_users at_all))])]"

definition send_text_message ::
  "robot \<Rightarrow> int \<Rightarrow> post_outcome \<Rightarrow> string \<Rightarrow> string list option \<Rightarrow> bool \<Rightarrow> send_outcome"
where
  "send_text_message self clock outcome text at_users at_all =
     send_message self clock outcome (text_payload text at_users at_all)"

definition post_payload :: "string \<Rightarrow> json \<Rightarrow> string \<Rightarrow> dict" where
  "post_payload title_text content language =
     [(''msg_type'', JStr ''post''),
      (''content'',
        JDict [(''post'',
          JDict [(language, JDict [(''title'', JStr title_text), (''content'', content)])])])]"

definition send_post_message ::
  "robot \<Rightarrow> int \<Rightarrow> post_outcome \<Rightarrow> string \<Rightarrow> json \<Rightarrow> string \<Rightarrow> send_outcome"
where
  "send_post_message self clock outcome title_text content language =
     send_message self clock outcome (post_payload title_text content language)"

definition card_payload :: "json \<Rightarrow> dict" where
  "card_payload card_msg = [(''msg_type'', JStr ''interactive''), (''card'', card_msg)]"

definition send_card_message :: "robot \<Rightarrow> int \<Rightarrow> post_outcome \<Rightarrow> json \<Rightarrow> send_outcome" where
  "send_card_message self clock outcome card_msg =
     send_message self clock outcome (card_payload card_msg)"

section \<open>The polling loop (\<open>main\<close> of \<open>latest_paper_bot.py\<close>)\<close>

text \<open>
  The card of one notification (lines 209-240).  The published time enters as the text
  that \<open>astimezone(Asia/Shanghai).strftime("%Y-%m-%d %H:%M:%S %Z")\<close> gives; that
  formatting is a parameter \<open>fmt\<close>.
\<close>

definition build_card :: "(datetime \<Rightarrow> string) \<Rightarrow> notification \<Rightarrow> json" where
  "build_card fmt notification =
     (let title_text = n_title notification;
          content = n_content notification;
          beijing_time = fmt (n_published notification)
      in JDict
           [(''header'',
               JDict [(''title'',
                         JDict [(''content'', JStr ''New Paper Notification''),
                                (''tag'', JStr ''plain_text'')]),
                      (''template'', JStr ''blue'')]),
            (''elements'',
               JList
                 [JDict [(''tag'', JStr ''div''),
                         (''text'',
                            JDict [(''content'', JStr (''**Title**'' @ [CHR 0x0A] @ title_text)),
                                   (''tag'', JStr ''lark_md'')])],
                  JDict [(''tag'', JStr ''div''),
                         (''text'',
                            JDict [(''content'', JStr (''**Content**'' @ [CHR 0x0A] @ content)),
                                   (''tag'', JStr ''lark_md'')])],
                  JDict [(''tag'', JStr ''div''),
                         (''text'',
                            JDict [(''content'',
                                      JStr (''**Published Time**'' @ [CHR 0x0A] @ beijing_time)),
                                   (''tag'', JStr ''lark_md'')])]])])"

text \<open>
  The state that \<open>main\<close> carries from one iteration of \<open>while True\<close> to the next:
  \<open>last_checked\<close> and \<open>sent_entries\<close>.  The field \<open>delivered\<close> is not a variable of the
  program: it records, in order, the id of every notification whose card was passed to
  \<open>send_card_message\<close>.
\<close>

record poll_state =
  last_checked :: datetime
  sent_entries :: "string set"
  delivered :: "string list"

text \<open>What the world does during one iteration: the outcome of the fetch, the outcome of
  the k-th POST of the iteration, and the reading of \<open>datetime.now(pytz.UTC)\<close> at its end
  (microseconds since the epoch).\<close>

record cycle_env =
  fetch_outcome :: "exn + entry list"
  post_outcomes :: "nat \<Rightarrow> post_outcome"
  now_utc :: int

record config =
  webhook :: string
  debug_mode :: bool
  fmt_time :: "datetime \<Rightarrow> string"

text \<open>The \<open>for notification in new_notifications\<close> loop (lines 199-246).  An exception
  out of \<open>send_card_message\<close> ends it before \<open>sent_entries.add\<close>; it is caught by the
  \<open>except Exception\<close> of the iteration.  The robot of \<open>main\<close> is built without a
  secret (line 178), so the clock of the signature is never read; it is passed as 0.\<close>

fun deliver ::
  "config \<Rightarrow> (nat \<Rightarrow> post_outcome) \<Rightarrow> nat \<Rightarrow> notification list \<Rightarrow> string set \<Rightarrow> string list
     \<Rightarrow> exn option \<times> string set \<times> string list"
where
  "deliver cfg outcomes k [] sent log = (None, sent, log)"
| "deliver cfg outcomes k (n # ns) sent log =
     (let card_msg = build_card (fmt_time cfg) n;
          robot = \<lparr>webhook_url = webhook cfg, secret = None\<rparr>;
          response = send_card_message robot 0 (outcomes k) card_msg;
          log' = log @ [n_id n]
      in case returned response of
           Inl e \<Rightarrow> (Some e, sent, log')
         | Inr _ \<Rightarrow> deliver cfg outcomes (Suc k) ns (insert (n_id n) sent) log')"

text \<open>One iteration of \<open>while True\<close> (lines 192-256), without the sleep and the log
  lines.  Whatever the \<open>try\<close> block did, \<open>last_checked\<close> is then assigned.\<close>

definition cycle :: "config \<Rightarrow> cycle_env \<Rightarrow> poll_state \<Rightarrow> poll_state" where
  "cycle cfg env st =
     (let (new_notifications, sent1) =
            get_new_notifications (fetch_outcome env) (last_checked st) (sent_entries st) (debug_mode cfg);
          (sent2, log2) =
            (case new_notifications of
               Inl e \<Rightarrow> (sent1, delivered st)
             | Inr ns \<Rightarrow> snd (deliver cfg (post_outcomes env) 0 ns sent1 (delivered st)))
      in \<lparr>last_checked = Aware (now_utc env), sent_entries = sent2, delivered = log2\<rparr>)"

text \<open>The first \<open>length envs\<close> iterations of the loop, and the watermark after each.\<close>

fun run :: "config \<Rightarrow> cycle_env list \<Rightarrow> poll_state \<Rightarrow> poll_state" where
  "run cfg [] st = st"
| "run cfg (env # envs) st = run cfg envs (cycle cfg env st)"

fun watermarks :: "config \<Rightarrow> cycle_env list \<Rightarrow> poll_state \<Rightarrow> datetime list" where
  "watermarks cfg [] st = []"
| "watermarks cfg (env # envs) st =
     last_checked (cycle cfg env st) # watermarks cfg envs (cycle cfg env st)"

text \<open>The state before the first iteration (lines 185-189): \<open>reference\<close> is the instant
  that the reference time denotes, read as Asia/Shanghai time and converted to UTC.\<close>

definition init_state :: "int \<Rightarrow> poll_state" where
  "init_state reference = \<lparr>last_checked = Aware reference, sent_entries = {}, delivered = []\<rparr>"

section \<open>Properties of the poller\<close>

lemma instant_ensure_utc: "instant (ensure_utc d) = instant d"
  by (cases d) simp_all

lemma ensure_utc_idem: "ensure_utc (ensure_utc d) = ensure_utc d"
  by (cases d) simp_all

lemma poll_entries_refines:
  "poll_entries debug lc sent es acc = Inr ns \<Longrightarrow>
   ns = acc @ map spec_record (filter (spec_is_new lc sent) es)"
proof (induction es arbitrary: acc)
  case Nil
  then show ?case by simp
next
  case (Cons e es)
  from Cons.prems obtain eid where eid: "entry_id e = Inr eid"
    by (cases "entry_id e") simp_all
  then obtain l where l: "link e = Some l"
    by (cases "link e") (simp_all add: entry_id_def)
  have sid: "spec_id e = eid"
    using eid l by (cases "id_field e") (auto simp: entry_id_def spec_id_def)
  show ?case
  proof (cases "eid \<in> sent")
    case True
    with Cons.prems eid have "poll_entries debug lc sent es acc = Inr ns" by simp
    from Cons.IH [OF this] True sid show ?thesis by (simp add: spec_is_new_def)
  next
    case False
    with Cons.prems eid obtain secs where secs: "published_parsed e = Parsed secs"
      by (cases "published_parsed e") simp_all
    show ?thesis
    proof (cases "instant (utc_datetime secs) > instant lc")
      case True
      with Cons.prems eid False secs obtain t s
        where ts: "title e = Some t" "summary e = Some s"
        by (cases "title e"; cases "summary e") (simp_all add: Let_def split: if_splits)
      let ?n = "\<lparr>n_title = t, n_content = s, n_published = utc_datetime secs, n_id = eid\<rparr>"
      from Cons.prems eid False secs True ts
      have "poll_entries debug lc sent es (acc @ [?n]) = Inr ns"
        by (simp add: Let_def)
      from Cons.IH [OF this] have "ns = (acc @ [?n]) @ map spec_record (filter (spec_is_new lc sent) es)" .
      moreover have "spec_is_new lc sent e"
        using True False sid secs by (simp add: spec_is_new_def instant_ensure_utc)
      moreover have "spec_record e = ?n"
        using ts secs sid by (simp add: spec_record_def)
      ultimately show ?thesis by simp
    next
      case nold: False
      with Cons.prems eid False secs have "poll_entries debug lc sent es acc = Inr ns"
        by (simp add: Let_def split: if_splits)
      from Cons.IH [OF this] nold False sid secs show ?thesis
        by (simp add: spec_is_new_def instant_ensure_utc)
    qed
  qed
qed

lemma get_new_notifications_refines:
  assumes "get_new_notifications (Inr entries) wm sent debug = (Inr ns, sent')"
  shows "ns = map spec_record (filter (spec_is_new wm sent) entries)"
proof -
  from assms have "poll_entries debug (ensure_utc wm) sent entries [] = Inr ns"
    by (auto simp: get_new_notifications_def)
  from poll_entries_refines [OF this]
  have "ns = map spec_record (filter (spec_is_new (ensure_utc wm) sent) entries)" by simp
  moreover have "spec_is_new (ensure_utc wm) sent = spec_is_new wm sent"
    by (rule ext) (simp add: spec_is_new_def ensure_utc_idem)
  ultimately show ?thesis by simp
qed

lemma poll_entries_ids:
  "poll_entries debug lc sent es acc = Inr ns \<Longrightarrow> e \<in> set es \<Longrightarrow> entry_id e = Inr (spec_id e)"
proof (induction es arbitrary: acc)
  case Nil
  then show ?case by simp
next
  case (Cons x xs)
  from Cons.prems(1) obtain eid where eid: "entry_id x = Inr eid"
    by (cases "entry_id x") simp_all
  then have hd: "entry_id x = Inr (spec_id x)"
    by (cases "link x"; cases "id_field x") (auto simp: entry_id_def spec_id_def)
  from Cons.prems(1) eid obtain acc' where "poll_entries debug lc sent xs acc' = Inr ns"
    by (auto simp: Let_def split: if_splits option.splits parsed_time.splits)
  from Cons.IH [OF this] Cons.prems(2) hd show ?case by auto
qed

lemma poll_entries_published:
  "poll_entries debug lc sent es acc = Inr ns \<Longrightarrow> e \<in> set es \<Longrightarrow> spec_id e \<notin> sent \<Longrightarrow>
   \<exists>p. published_parsed e = Parsed p"
proof (induction es arbitrary: acc)
  case Nil
  then show ?case by simp
next
  case (Cons x xs)
  from Cons.prems(1) obtain eid where eid: "entry_id x = Inr eid"
    by (cases "entry_id x") simp_all
  then have sid: "spec_id x = eid"
    by (cases "link x"; cases "id_field x") (auto simp: entry_id_def spec_id_def)
  from Cons.prems(1) eid obtain acc' where rest: "poll_entries debug lc sent xs acc' = Inr ns"
    by (auto simp: Let_def split: if_splits option.splits parsed_time.splits)
  show ?case
  proof (cases "e = x")
    case True
    with Cons.prems(3) sid have "eid \<notin> sent" by simp
    with Cons.prems(1) eid True show ?thesis
      by (cases "published_parsed x") simp_all
  next
    case False
    with Cons.prems(2) have "e \<in> set xs" by simp
    from Cons.IH [OF rest this Cons.prems(3)] show ?thesis .
  qed
qed

lemma spec_is_new_published:
  "spec_is_new wm sent e \<Longrightarrow>
   instant wm < instant (utc_datetime (parsed_secs (published_parsed e)))"
  by (simp add: spec_is_new_def instant_ensure_utc)

lemma spec_is_new_unsent: "spec_is_new wm sent e \<Longrightarrow> spec_id e \<notin> sent"
  by (simp add: spec_is_new_def)

subsection \<open>Claim C2\<close>

text \<open>
  C2.  Whenever \<open>get_new_notifications\<close> returns a list, that list is built, in feed order,
  from a selection \<open>sel\<close> of the feed's entries, and an entry is in the selection only if
  it has a published time and that time is strictly greater than the watermark; so an
  entry whose published time equals the watermark, or lies before it, is not in the
  selection, and every record returned carries a published time strictly after the
  watermark.
\<close>

theorem pollNew_strictly_after_watermark:
  assumes "get_new_notifications (Inr entries) watermark sentIds debug = (Inr ns, sent')"
  shows "\<exists>sel. subseq sel entries \<and> ns = map spec_record sel \<and>
           (\<forall>e \<in> set sel. \<exists>p. published_parsed e = Parsed p \<and>
              instant watermark < instant (utc_datetime p)) \<and>
           (\<forall>e \<in> set entries. \<forall>p. published_parsed e = Parsed p \<longrightarrow>
              instant (utc_datetime p) \<le> instant watermark \<longrightarrow> e \<notin> set sel) \<and>
           (\<forall>n \<in> set ns. instant watermark < instant (n_published n))"
proof -
  let ?sel = "filter (spec_is_new watermark sentIds) entries"
  have ns: "ns = map spec_record ?sel"
    by (rule get_new_notifications_refines [OF assms])
  from assms have run: "poll_entries debug (ensure_utc watermark) sentIds entries [] = Inr ns"
    by (auto simp: get_new_notifications_def)
  have after: "\<forall>e \<in> set ?sel. \<exists>p. published_parsed e = Parsed p \<and>
      instant watermark < instant (utc_datetime p)"
  proof
    fix e assume e: "e \<in> set ?sel"
    then have "e \<in> set entries" and new: "spec_is_new watermark sentIds e" by simp_all
    with poll_entries_published [OF run] obtain p where p: "published_parsed e = Parsed p"
      by (auto dest: spec_is_new_unsent)
    with spec_is_new_published [OF new]
    show "\<exists>p. published_parsed e = Parsed p \<and> instant watermark < instant (utc_datetime p)"
      by simp
  qed
  have "\<forall>n \<in> set ns. instant watermark < instant (n_published n)"
    unfolding ns using after by (auto simp: spec_record_def)
  moreover have "\<forall>e \<in> set entries. \<forall>p. published_parsed e = Parsed p \<longrightarrow>
      instant (utc_datetime p) \<le> instant watermark \<longrightarrow> e \<notin> set ?sel"
    using after by fastforce
  ultimately show ?thesis
    using ns after subseq_filter_left [of "spec_is_new watermark sentIds" entries] by blast
qed

theorem pollNew_strictly_after_watermark_witness:
  "get_new_notifications
     (Inr [\<lparr>id_field = None, link = Some ''a'', published_parsed = Parsed 4, title = Some ''t'', summary = Some ''s''\<rparr>,
           \<lparr>id_field = None, link = Some ''b'', published_parsed = Parsed 5, title = Some ''t'', summary = Some ''s''\<rparr>,
           \<lparr>id_field = None, link = Some ''c'', published_parsed = Parsed 6, title = Some ''t'', summary = Some ''s''\<rparr>])
     (Aware 5000000) {} False
   = (Inr [\<lparr>n_title = ''t'', n_content = ''s'', n_published = Aware 6000000, n_id = ''c''\<rparr>], {})
   \<and> (\<exists>sel. subseq sel
           [\<lparr>id_field = None, link = Some ''a'', published_parsed = Parsed 4, title = Some ''t'', summary = Some ''s''\<rparr>,
            \<lparr>id_field = None, link = Some ''b'', published_parsed = Parsed 5, title = Some ''t'', summary = Some ''s''\<rparr>,
            \<lparr>id_field = None, link = Some ''c'', published_parsed = Parsed 6, title = Some ''t'', summary = Some ''s''\<rparr>] \<and>
         [\<lparr>n_title = ''t'', n_content = ''s'', n_published = Aware 6000000, n_id = ''c''\<rparr>]
           = map spec_record sel \<and>
         (\<forall>e \<in> set sel. \<exists>p. published_parsed e = Parsed p \<and>
            instant (Aware 5000000) < instant (utc_datetime p)) \<and>
         (\<forall>e \<in> set [\<lparr>id_field = None, link = Some ''a'', published_parsed = Parsed 4, title = Some ''t'', summary = Some ''s''\<rparr>,
                      \<lparr>id_field = None, link = Some ''b'', published_parsed = Parsed 5, title = Some ''t'', summary = Some ''s''\<rparr>,
                      \<lparr>id_field = None, link = Some ''c'', published_parsed = Parsed 6, title = Some ''t'', summary = Some ''s''\<rparr>]. \<forall>p. published_parsed e = Parsed p \<longrightarrow>
            instant (utc_datetime p) \<le> instant (Aware 5000000) \<longrightarrow> e \<notin> set sel) \<and>
         (\<forall>n \<in> set [\<lparr>n_title = ''t'', n_content = ''s'', n_published = Aware 6000000, n_id = ''c''\<rparr>].
            instant (Aware 5000000) < instant (n_published n)))"
proof -
  have run: "get_new_notifications
     (Inr [\<lparr>id_field = None, link = Some ''a'', published_parsed = Parsed 4, title = Some ''t'', summary = Some ''s''\<rparr>,
           \<lparr>id_field = None, link = Some ''b'', published_parsed = Parsed 5, title = Some ''t'', summary = Some ''s''\<rparr>,
           \<lparr>id_field = None, link = Some ''c'', published_parsed = Parsed 6, title = Some ''t'', summary = Some ''s''\<rparr>])
     (Aware 5000000) {} False
   = (Inr [\<lparr>n_title = ''t'', n_content = ''s'', n_published = Aware 6000000, n_id = ''c''\<rparr>], {})"
    by (simp add: get_new_notifications_def entry_id_def utc_datetime_def)
  from pollNew_strictly_after_watermark [OF run] run show ?thesis by blast
qed

subsection \<open>Claim C3\<close>

text \<open>
  C3.  Whenever \<open>get_new_notifications\<close> returns a list, an entry whose derived id (the
  feed's id, or the link when the entry has no id) is a member of \<open>sentIds\<close> is not in the
  selection the list is built from, whatever its published time; and no record returned
  carries an id of \<open>sentIds\<close>.
\<close>

theorem pollNew_excludes_sent_ids:
  assumes "get_new_notifications (Inr entries) watermark sentIds debug = (Inr ns, sent')"
  shows "\<exists>sel. subseq sel entries \<and> ns = map spec_record sel \<and>
           (\<forall>e \<in> set entries. \<forall>i. entry_id e = Inr i \<longrightarrow> i \<in> sentIds \<longrightarrow> e \<notin> set sel) \<and>
           (\<forall>n \<in> set ns. n_id n \<notin> sentIds)"
proof -
  let ?sel = "filter (spec_is_new watermark sentIds) entries"
  have ns: "ns = map spec_record ?sel"
    by (rule get_new_notifications_refines [OF assms])
  from assms have run: "poll_entries debug (ensure_utc watermark) sentIds entries [] = Inr ns"
    by (auto simp: get_new_notifications_def)
  have ids: "\<forall>e \<in> set entries. \<forall>i. entry_id e = Inr i \<longrightarrow> i \<in> sentIds \<longrightarrow> e \<notin> set ?sel"
  proof (intro ballI allI impI)
    fix e i
    assume e: "e \<in> set entries" and i: "entry_id e = Inr i" and m: "i \<in> sentIds"
    from poll_entries_ids [OF run e] i have "spec_id e = i" by simp
    with m show "e \<notin> set ?sel" by (auto dest: spec_is_new_unsent)
  qed
  have "\<forall>n \<in> set ns. n_id n \<notin> sentIds"
    unfolding ns by (auto simp: spec_record_def dest: spec_is_new_unsent)
  with ns ids subseq_filter_left [of "spec_is_new watermark sentIds" entries]
  show ?thesis by blast
qed

theorem pollNew_excludes_sent_ids_witness:
  "get_new_notifications
     (Inr [\<lparr>id_field = None, link = Some ''a'', published_parsed = Parsed 6, title = Some ''t'', summary = Some ''s''\<rparr>,
           \<lparr>id_field = None, link = Some ''b'', published_parsed = Parsed 7, title = Some ''t'', summary = Some ''s''\<rparr>])
     (Aware 5000000) {''a''} False
   = (Inr [\<lparr>n_title = ''t'', n_content = ''s'', n_published = Aware 7000000, n_id = ''b''\<rparr>], {''a''})
   \<and> (\<exists>sel. subseq sel
           [\<lparr>id_field = None, link = Some ''a'', published_parsed = Parsed 6, title = Some ''t'', summary = Some ''s''\<rparr>,
            \<lparr>id_field = None, link = Some ''b'', published_parsed = Parsed 7, title = Some ''t'', summary = Some ''s''\<rparr>] \<and>
         [\<lparr>n_title = ''t'', n_content = ''s'', n_published = Aware 7000000, n_id = ''b''\<rparr>]
           = map spec_record sel \<and>
         (\<forall>e \<in> set [\<lparr>id_field = None, link = Some ''a'', published_parsed = Parsed 6, title = Some ''t'', summary = Some ''s''\<rparr>,
                      \<lparr>id_field = None, link = Some ''b'', published_parsed = Parsed 7, title = Some ''t'', summary = Some ''s''\<rparr>].
            \<forall>i. entry_id e = Inr i \<longrightarrow> i \<in> {''a''} \<longrightarrow> e \<notin> set sel) \<and>
         (\<forall>n \<in> set [\<lparr>n_title = ''t'', n_content = ''s'', n_published = Aware 7000000, n_id = ''b''\<rparr>].
            n_id n \<notin> {''a''}))"
proof -
  have run: "get_new_notifications
     (Inr [\<lparr>id_field = None, link = Some ''a'', published_parsed = Parsed 6, title = Some ''t'', summary = Some ''s''\<rparr>,
           \<lparr>id_field = None, link = Some ''b'', published_parsed = Parsed 7, title = Some ''t'', summary = Some ''s''\<rparr>])
     (Aware 5000000) {''a''} False
   = (Inr [\<lparr>n_title = ''t'', n_content = ''s'', n_published = Aware 7000000, n_id = ''b''\<rparr>], {''a''})"
    by (simp add: get_new_notifications_def entry_id_def utc_datetime_def)
  from pollNew_excludes_sent_ids [OF run] run show ?thesis by blast
qed

subsection \<open>Claim C8\<close>

text \<open>
  C8.  For every outcome of the fetch, every watermark, every set \<open>sent_entries\<close> and
  either debug mode, the set \<open>sent_entries\<close> is, after the call of
  \<open>get_new_notifications\<close>, the set that was passed in: the call neither adds nor removes
  an element, whether it returns or raises.
\<close>

theorem pollNew_leaves_sentIds_unchanged:
  "snd (get_new_notifications fetched watermark sentIds debug) = sentIds"
  by (cases fetched) (simp_all add: get_new_notifications_def)

section \<open>Properties of the signature\<close>

lemma generate_sign_no_secret:
  "secret self = None \<or> secret self = Some [] \<Longrightarrow> generate_sign self clock = []"
  by (auto simp: generate_sign_def)

lemma generate_sign_secret:
  "secret self = Some sec \<Longrightarrow> sec \<noteq> [] \<Longrightarrow>
   generate_sign self clock =
     [(''timestamp'', JStr (str_int clock)),
      (''sign'', JStr (b64encode (hmac_sha256 (utf8 (str_int clock @ [CHR 0x0A] @ sec)) [])))]"
  by (simp add: generate_sign_def hmac_new_digest_def Let_def)

text \<open>The model of the library computes the published test vectors: SHA-256 of
  \<open>abc\<close> (FIPS 180-4) and test case 2 of RFC 4231 for HMAC-SHA-256.\<close>

lemma sha256_abc:
  "sha256 (utf8 ''abc'') =
     [0xba, 0x78, 0x16, 0xbf, 0x8f, 0x01, 0xcf, 0xea, 0x41, 0x41, 0x40, 0xde, 0x5d, 0xae, 0x22, 0x23,
      0xb0, 0x03, 0x61, 0xa3, 0x96, 0x17, 0x7a, 0x9c, 0xb4, 0x10, 0xff, 0x61, 0xf2, 0x00, 0x15, 0xad]"
  by code_simp

lemma hmac_sha256_rfc4231_case2:
  "hmac_sha256 (utf8 ''Jefe'') (utf8 ''what do ya want for nothing?'') =
     [0x5b, 0xdc, 0xc1, 0x46, 0xbf, 0x60, 0x75, 0x4e, 0x6a, 0x04, 0x24, 0x26, 0x08, 0x95, 0x75, 0xc7,
      0x5a, 0x00, 0x3f, 0x08, 0x9d, 0x27, 0x39, 0x83, 0x9d, 0xec, 0x58, 0xb9, 0x64, 0xec, 0x38, 0x43]"
  by code_simp

lemma str_int_example: "str_int 1700000000 = ''1700000000''"
  by code_simp

text \<open>The two candidate signatures for the secret \<open>s3cr3t\<close> at the second 1700000000:
  HMAC of the empty message, and HMAC of the key string itself.\<close>

lemma sign_value_empty_message:
  "b64encode (hmac_sha256 (utf8 (str_int 1700000000 @ [CHR 0x0A] @ ''s3cr3t'')) [])
     = ''CNNNRL0wSY2j+cKcY98lQAfVvb21u/iW3phZyXRkmcY=''"
  by code_simp

lemma sign_value_key_as_message:
  "b64encode (hmac_sha256 (utf8 (str_int 1700000000 @ [CHR 0x0A] @ ''s3cr3t''))
                          (utf8 (str_int 1700000000 @ [CHR 0x0A] @ ''s3cr3t'')))
     = ''Sc+yfAAeWroQ0z68QdvWra6bo+LvJ5iVPdrtjHFdwtE=''"
  by code_simp

subsection \<open>Claim C1\<close>

text \<open>
  C1, as the code has it.  For every non-empty secret and every timestamp \<open>t\<close>,
  \<open>_generate_sign\<close> returns exactly the two string fields \<open>timestamp\<close>, the decimal
  string of \<open>t\<close>, and \<open>sign\<close>, the Base64 string of HMAC-SHA256 with key
  \<open>utf8(str(t) + "\n" + secret)\<close> over the empty message: \<open>hmac.new\<close> is called
  without data.
\<close>

theorem sign_is_hmac_of_empty_message:
  assumes "secret self = Some sec" and "sec \<noteq> []"
  shows "generate_sign self t =
           [(''timestamp'', JStr (str_int t)),
            (''sign'', JStr (b64encode (hmac_sha256 (utf8 (str_int t @ [CHR 0x0A] @ sec)) [])))]"
  using assms by (rule generate_sign_secret)

theorem sign_is_hmac_of_empty_message_witness:
  "secret \<lparr>webhook_url = ''https://hook'', secret = Some ''s3cr3t''\<rparr> = Some ''s3cr3t'' \<and>
   ''s3cr3t'' \<noteq> [] \<and>
   generate_sign \<lparr>webhook_url = ''https://hook'', secret = Some ''s3cr3t''\<rparr> 1700000000 =
     [(''timestamp'', JStr ''1700000000''),
      (''sign'', JStr ''CNNNRL0wSY2j+cKcY98lQAfVvb21u/iW3phZyXRkmcY='')]"
proof -
  have a: "secret \<lparr>webhook_url = ''https://hook'', secret = Some ''s3cr3t''\<rparr> = Some ''s3cr3t''"
    by simp
  have b: "''s3cr3t'' \<noteq> []" by simp
  note v = sign_is_hmac_of_empty_message [OF a b, of 1700000000]
  note w = v [unfolded sign_value_empty_message]
  from w [unfolded str_int_example] a b show ?thesis by blast
qed

text \<open>
  C1 as stated fails: with the secret \<open>s3cr3t\<close> at the second 1700000000 the code's
  \<open>sign\<close> is not the Base64 string of the HMAC whose data is the key string; and a secret
  configured as the empty string gives no signature at all.
\<close>

theorem sign_is_not_hmac_of_key_string_counterexample:
  "map_of (generate_sign \<lparr>webhook_url = ''https://hook'', secret = Some ''s3cr3t''\<rparr> 1700000000) ''sign''
     \<noteq> Some (JStr (b64encode
           (hmac_sha256 (utf8 (str_int 1700000000 @ [CHR 0x0A] @ ''s3cr3t''))
                        (utf8 (str_int 1700000000 @ [CHR 0x0A] @ ''s3cr3t''))))) \<and>
   map_of (generate_sign \<lparr>webhook_url = ''https://hook'', secret = Some ''s3cr3t''\<rparr> 1700000000) ''sign''
     = Some (JStr ''CNNNRL0wSY2j+cKcY98lQAfVvb21u/iW3phZyXRkmcY='') \<and>
   b64encode (hmac_sha256 (utf8 (str_int 1700000000 @ [CHR 0x0A] @ ''s3cr3t''))
                          (utf8 (str_int 1700000000 @ [CHR 0x0A] @ ''s3cr3t'')))
     = ''Sc+yfAAeWroQ0z68QdvWra6bo+LvJ5iVPdrtjHFdwtE='' \<and>
   generate_sign \<lparr>webhook_url = ''https://hook'', secret = Some []\<rparr> 1700000000 = []"
proof -
  have g0: "generate_sign \<lparr>webhook_url = ''https://hook'', secret = Some ''s3cr3t''\<rparr> 1700000000 =
      [(''timestamp'', JStr (str_int 1700000000)),
       (''sign'', JStr (b64encode
           (hmac_sha256 (utf8 (str_int 1700000000 @ [CHR 0x0A] @ ''s3cr3t'')) [])))]"
    by (rule generate_sign_secret) simp_all
  note g = g0 [unfolded sign_value_empty_message]
  have e: "generate_sign \<lparr>webhook_url = ''https://hook'', secret = Some []\<rparr> 1700000000 = []"
    by (simp add: generate_sign_no_secret)
  show ?thesis
    unfolding g e sign_value_key_as_message by simp
qed

section \<open>Properties of the sender\<close>

lemma payload_after_send_message:
  "payload_after (send_message self clock outcome payload) =
     dict_update payload (generate_sign self clock)"
  by (simp add: send_message_def Let_def)

lemma posted_send_message:
  "posted (send_message self clock outcome payload) =
     JDict (dict_update payload (generate_sign self clock))"
  by (simp add: send_message_def Let_def)

lemma returned_request_exception:
  "returned (send_message self clock (PostRaises (RequestException m)) payload) =
     Inr (JDict [(''error'', JStr m),
                 (''payload'', JDict (dict_update payload (generate_sign self clock)))])"
  by (simp add: send_message_def Let_def)

lemma returned_http_error:
  "400 \<le> status_code r \<Longrightarrow> status_code r < 600 \<Longrightarrow>
   \<exists>m. raise_for_status r = Inl (RequestException m) \<and>
   returned (send_message self clock (PostReturns r) payload) =
     Inr (JDict [(''error'', JStr m),
                 (''payload'', JDict (dict_update payload (generate_sign self clock)))])"
  by (auto simp: send_message_def Let_def raise_for_status_def)

lemma map_of_dict_update_sign:
  "map_of (dict_update payload [(''timestamp'', t), (''sign'', g)]) =
     (map_of payload)(''timestamp'' \<mapsto> t, ''sign'' \<mapsto> g)"
  by (simp add: dict_update_def update_conv')

lemma dict_update_changes:
  assumes "map_of payload ''timestamp'' = None"
  shows "dict_update payload [(''timestamp'', t), (''sign'', g)] \<noteq> payload"
proof
  assume "dict_update payload [(''timestamp'', t), (''sign'', g)] = payload"
  then have "map_of (dict_update payload [(''timestamp'', t), (''sign'', g)]) ''timestamp''
             = map_of payload ''timestamp''" by simp
  with assms show False by (simp add: map_of_dict_update_sign)
qed

lemma str_int_503: "str_int 503 = ''503''"
  by code_simp

subsection \<open>Claim C5\<close>

text \<open>
  C5, as the code has it.  If \<open>requests.post\<close> raises a \<open>RequestException\<close> (a failure of
  the transport), or the response has a status from 400 to 599, so that
  \<open>raise_for_status\<close> raises, then \<open>_send_message\<close> does not raise: it returns the
  dictionary with the two keys \<open>error\<close>, the text of the exception, and \<open>payload\<close>, the
  payload as the call left it.
\<close>

theorem delivery_failure_is_returned:
  "(\<forall>m. outcome = PostRaises (RequestException m) \<longrightarrow>
        returned (send_message self clock outcome payload) =
          Inr (JDict [(''error'', JStr m),
                      (''payload'', JDict (payload_after (send_message self clock outcome payload)))])) \<and>
   (\<forall>r. outcome = PostReturns r \<and> 400 \<le> status_code r \<and> status_code r < 600 \<longrightarrow>
        (\<exists>m. raise_for_status r = Inl (RequestException m) \<and>
          returned (send_message self clock outcome payload) =
            Inr (JDict [(''error'', JStr m),
                        (''payload'', JDict (payload_after (send_message self clock outcome payload)))])))"
proof (intro conjI allI impI)
  fix m assume "outcome = PostRaises (RequestException m)"
  then show "returned (send_message self clock outcome payload) =
          Inr (JDict [(''error'', JStr m),
                      (''payload'', JDict (payload_after (send_message self clock outcome payload)))])"
    by (simp add: returned_request_exception payload_after_send_message)
next
  fix r assume "outcome = PostReturns r \<and> 400 \<le> status_code r \<and> status_code r < 600"
  then show "\<exists>m. raise_for_status r = Inl (RequestException m) \<and>
          returned (send_message self clock outcome payload) =
            Inr (JDict [(''error'', JStr m),
                        (''payload'', JDict (payload_after (send_message self clock outcome payload)))])"
    using returned_http_error [of r self clock payload]
    by (simp add: payload_after_send_message)
qed

theorem delivery_failure_is_returned_witness:
  "returned (send_message \<lparr>webhook_url = ''https://hook'', secret = None\<rparr> 0 (PostRaises (RequestException ''Connection refused''))
       (card_payload JNull))
     = Inr (JDict [(''error'', JStr ''Connection refused''),
                   (''payload'', JDict [(''msg_type'', JStr ''interactive''), (''card'', JNull)])]) \<and>
   400 \<le> status_code \<lparr>status_code = 503, reason = ''Service Unavailable'', url = ''https://hook'',
                          json_result = Inr JNull\<rparr> \<and>
   status_code \<lparr>status_code = 503, reason = ''Service Unavailable'', url = ''https://hook'',
                 json_result = Inr JNull\<rparr> < 600 \<and>
   returned (send_message \<lparr>webhook_url = ''https://hook'', secret = None\<rparr> 0
       (PostReturns \<lparr>status_code = 503, reason = ''Service Unavailable'', url = ''https://hook'',
                      json_result = Inr JNull\<rparr>)
       (card_payload JNull))
     = Inr (JDict [(''error'', JStr ''503 Server Error: Service Unavailable for url: https://hook''),
                   (''payload'', JDict [(''msg_type'', JStr ''interactive''), (''card'', JNull)])])"
proof -
  have p: "payload_after (send_message \<lparr>webhook_url = ''https://hook'', secret = None\<rparr> 0 outcome (card_payload JNull))
      = [(''msg_type'', JStr ''interactive''), (''card'', JNull)]" for outcome
    by (simp add: payload_after_send_message generate_sign_no_secret dict_update_def card_payload_def)
  have m: "raise_for_status \<lparr>status_code = 503, reason = ''Service Unavailable'', url = ''https://hook'',
                      json_result = Inr JNull\<rparr>
      = Inl (RequestException ''503 Server Error: Service Unavailable for url: https://hook'')"
    by (simp add: raise_for_status_def str_int_503)
  from delivery_failure_is_returned
         [of "PostRaises (RequestException ''Connection refused'')"
             "\<lparr>webhook_url = ''https://hook'', secret = None\<rparr>" 0 "card_payload JNull"]
       delivery_failure_is_returned
         [of "PostReturns \<lparr>status_code = 503, reason = ''Service Unavailable'', url = ''https://hook'',
                      json_result = Inr JNull\<rparr>"
             "\<lparr>webhook_url = ''https://hook'', secret = None\<rparr>" 0 "card_payload JNull"]
  show ?thesis
    by (simp add: p m)
qed

text \<open>
  C5 as stated fails for a status that is neither 2xx nor an error for
  \<open>raise_for_status\<close>: on a response with status 300 and a JSON body the call returns
  the parsed body, which has no \<open>error\<close> and no \<open>payload\<close> key.
\<close>

theorem status_300_counterexample:
  "returned (send_message \<lparr>webhook_url = ''https://hook'', secret = None\<rparr> 0
      (PostReturns \<lparr>status_code = 300, reason = ''Multiple Choices'', url = ''https://hook'',
                     json_result = Inr (JDict [(''code'', JInt 0)])\<rparr>)
      (card_payload JNull))
     = Inr (JDict [(''code'', JInt 0)]) \<and>
   ''error'' \<notin> set (result_keys (returned (send_message \<lparr>webhook_url = ''https://hook'', secret = None\<rparr> 0
      (PostReturns \<lparr>status_code = 300, reason = ''Multiple Choices'', url = ''https://hook'',
                     json_result = Inr (JDict [(''code'', JInt 0)])\<rparr>)
      (card_payload JNull)))) \<and>
   ''payload'' \<notin> set (result_keys (returned (send_message \<lparr>webhook_url = ''https://hook'', secret = None\<rparr> 0
      (PostReturns \<lparr>status_code = 300, reason = ''Multiple Choices'', url = ''https://hook'',
                     json_result = Inr (JDict [(''code'', JInt 0)])\<rparr>)
      (card_payload JNull))))"
  by (simp add: send_message_def raise_for_status_def Let_def)

subsection \<open>Claim C6\<close>

text \<open>
  C6.  When no secret is configured (\<open>None\<close> or the empty string), \<open>_send_message\<close> adds
  no field: the body it sends, and the caller's dictionary after the call, are the payload
  as it was passed.  For every payload that the sender builds, that of
  \<open>send_text_message\<close> for every text and every mention, that of \<open>send_post_message\<close>
  for every title, content and language, and that of \<open>send_card_message\<close> for every
  card, the body sent has the fields \<open>msg_type\<close> and \<open>content\<close> or \<open>card\<close> only, so
  neither a \<open>timestamp\<close> nor a \<open>sign\<close> field.
\<close>

theorem no_secret_adds_no_field:
  assumes "secret self = None \<or> secret self = Some []"
  shows "posted (send_message self clock outcome payload) = JDict payload \<and>
         payload_after (send_message self clock outcome payload) = payload \<and>
         (''timestamp'' \<notin> fst ` set payload \<longrightarrow>
            ''timestamp'' \<notin> set (keys_of (posted (send_message self clock outcome payload)))) \<and>
         (''sign'' \<notin> fst ` set payload \<longrightarrow>
            ''sign'' \<notin> set (keys_of (posted (send_message self clock outcome payload)))) \<and>
         keys_of (posted (send_text_message self clock outcome text at_users at_all))
           = [''msg_type'', ''content''] \<and>
         keys_of (posted (send_post_message self clock outcome title_text content language))
           = [''msg_type'', ''content''] \<and>
         keys_of (posted (send_card_message self clock outcome card_msg))
           = [''msg_type'', ''card''] \<and>
         ''timestamp'' \<notin> set (keys_of (posted (send_text_message self clock outcome text at_users at_all))) \<and>
         ''sign'' \<notin> set (keys_of (posted (send_text_message self clock outcome text at_users at_all))) \<and>
         ''timestamp'' \<notin> set (keys_of (posted
            (send_post_message self clock outcome title_text content language))) \<and>
         ''sign'' \<notin> set (keys_of (posted
            (send_post_message self clock outcome title_text content language))) \<and>
         ''timestamp'' \<notin> set (keys_of (posted (send_card_message self clock outcome card_msg))) \<and>
         ''sign'' \<notin> set (keys_of (posted (send_card_message self clock outcome card_msg)))"
  using assms
  by (simp add: posted_send_message payload_after_send_message generate_sign_no_secret
      dict_update_def send_text_message_def send_post_message_def send_card_message_def
      text_payload_def post_payload_def card_payload_def)

theorem no_secret_adds_no_field_witness:
  "(secret \<lparr>webhook_url = ''https://hook'', secret = None\<rparr> = None \<or> secret \<lparr>webhook_url = ''https://hook'', secret = None\<rparr> = Some []) \<and>
   posted (send_message \<lparr>webhook_url = ''https://hook'', secret = None\<rparr> 1700000000 (PostRaises (RequestException ''timeout''))
             (card_payload JNull))
     = JDict [(''msg_type'', JStr ''interactive''), (''card'', JNull)] \<and>
   keys_of (posted (send_card_message \<lparr>webhook_url = ''https://hook'', secret = None\<rparr> 1700000000 (PostRaises (RequestException ''timeout'')) JNull))
     = [''msg_type'', ''card''] \<and>
   ''timestamp'' \<notin> set (keys_of (posted
      (send_card_message \<lparr>webhook_url = ''https://hook'', secret = None\<rparr> 1700000000 (PostRaises (RequestException ''timeout'')) JNull))) \<and>
   ''sign'' \<notin> set (keys_of (posted
      (send_card_message \<lparr>webhook_url = ''https://hook'', secret = None\<rparr> 1700000000 (PostRaises (RequestException ''timeout'')) JNull)))"
proof -
  have h: "secret \<lparr>webhook_url = ''https://hook'', secret = None\<rparr> = None \<or> secret \<lparr>webhook_url = ''https://hook'', secret = None\<rparr> = Some []" by simp
  from no_secret_adds_no_field [OF h, of 1700000000 "PostRaises (RequestException ''timeout'')"
         "card_payload JNull" _ _ _ _ _ _ JNull] h
  show ?thesis by (simp add: card_payload_def)
qed

subsection \<open>Claim C7\<close>

text \<open>
  C7.  For every text, every list of user ids and either value of \<open>at_all\<close>, the text
  that \<open>send_text_message\<close> puts into the payload is: the all-mention token and a space
  when \<open>at_all\<close> is true; then, when the list is not empty, the tokens of the users in
  list order, joined by a space, and a space; then the caller's text.  So with a
  non-empty list and \<open>at_all\<close> true it is the all-mention token first, then the user
  tokens, then the text; and for \<open>hi\<close>, the users \<open>u1\<close> and \<open>u2\<close> and \<open>at_all\<close> true it
  is, and so starts with,
  \<open><at user_id="all"></at> <at user_id="u1"></at> <at user_id="u2"></at> hi\<close>.
\<close>

theorem mention_composition:
  \<open>text_body text at_users at_all =
     (if at_all then ''<at user_id="all"></at> '' else []) @
     (case at_users of
        None \<Rightarrow> []
      | Some users \<Rightarrow>
          if users = [] then []
          else join '' '' (map (\<lambda>user_id. ''<at user_id="'' @ user_id @ ''"></at>'') users) @ '' '') @
     text \<and>
   (users \<noteq> [] \<longrightarrow>
      text_body text (Some users) True =
        ''<at user_id="all"></at> '' @
        join '' '' (map (\<lambda>user_id. ''<at user_id="'' @ user_id @ ''"></at>'') users) @ '' '' @ text \<and>
      text_payload text (Some users) True =
        [(''msg_type'', JStr ''text''),
         (''content'', JDict [(''text'', JStr
            (''<at user_id="all"></at> '' @
             join '' '' (map (\<lambda>user_id. ''<at user_id="'' @ user_id @ ''"></at>'') users) @
             '' '' @ text))])]) \<and>
   join sep [a, b] = a @ sep @ b \<and>
   text_body ''hi'' (Some [''u1'', ''u2'']) True =
     ''<at user_id="all"></at> <at user_id="u1"></at> <at user_id="u2"></at> hi'' \<and>
   prefix ''<at user_id="all"></at> <at user_id="u1"></at> <at user_id="u2"></at> hi''
     (text_body ''hi'' (Some [''u1'', ''u2'']) True) \<and>
   text_payload ''hi'' (Some [''u1'', ''u2'']) True =
     [(''msg_type'', JStr ''text''),
      (''content'', JDict [(''text'',
         JStr ''<at user_id="all"></at> <at user_id="u1"></at> <at user_id="u2"></at> hi'')])]\<close>
  by (simp add: text_body_def text_payload_def split: option.splits)

theorem mention_composition_witness:
  \<open>[''u1'', ''u2''] \<noteq> [] \<and>
   text_body ''hi'' (Some [''u1'', ''u2'']) True =
     ''<at user_id="all"></at> '' @
     join '' '' (map (\<lambda>user_id. ''<at user_id="'' @ user_id @ ''"></at>'') [''u1'', ''u2'']) @
     '' '' @ ''hi'' \<and>
   ''<at user_id="all"></at> '' @
     join '' '' (map (\<lambda>user_id. ''<at user_id="'' @ user_id @ ''"></at>'') [''u1'', ''u2'']) @
     '' '' @ ''hi''
     = ''<at user_id="all"></at> <at user_id="u1"></at> <at user_id="u2"></at> hi'' \<and>
   text_payload ''hi'' (Some [''u1'', ''u2'']) True =
     [(''msg_type'', JStr ''text''),
      (''content'', JDict [(''text'',
         JStr ''<at user_id="all"></at> <at user_id="u1"></at> <at user_id="u2"></at> hi'')])]\<close>
proof -
  have h: "[''u1'', ''u2''] \<noteq> ([] :: string list)" by simp
  from mention_composition [of "''hi''" "Some [''u1'', ''u2'']" True "[''u1'', ''u2'']"] h
  show ?thesis by simp
qed

subsection \<open>Claim C10\<close>

text \<open>
  C10.  When a non-empty secret is configured, the dictionary that the caller passed to
  \<open>_send_message\<close> is, after the call, that dictionary updated with the fields
  \<open>timestamp\<close> and \<open>sign\<close>; it differs from the dictionary passed in whenever that had no
  \<open>timestamp\<close>.  When the delivery fails (\<open>requests.post\<close> raises a \<open>RequestException\<close>, or
  the status is from 400 to 599), the \<open>payload\<close> field of the error result is this updated
  dictionary, signature fields included.
\<close>

theorem signature_fields_in_caller_payload:
  assumes "secret self = Some sec" and "sec \<noteq> []"
  shows "payload_after (send_message self clock outcome payload) =
           dict_update payload
             [(''timestamp'', JStr (str_int clock)),
              (''sign'', JStr (b64encode (hmac_sha256 (utf8 (str_int clock @ [CHR 0x0A] @ sec)) [])))] \<and>
         map_of (payload_after (send_message self clock outcome payload)) ''timestamp''
           = Some (JStr (str_int clock)) \<and>
         map_of (payload_after (send_message self clock outcome payload)) ''sign''
           = Some (JStr (b64encode (hmac_sha256 (utf8 (str_int clock @ [CHR 0x0A] @ sec)) []))) \<and>
         (map_of payload ''timestamp'' = None \<longrightarrow>
            payload_after (send_message self clock outcome payload) \<noteq> payload) \<and>
         (\<forall>m. outcome = PostRaises (RequestException m) \<longrightarrow>
            returned (send_message self clock outcome payload) =
              Inr (JDict [(''error'', JStr m),
                          (''payload'', JDict (payload_after (send_message self clock outcome payload)))])) \<and>
         (\<forall>r. outcome = PostReturns r \<and> 400 \<le> status_code r \<and> status_code r < 600 \<longrightarrow>
            (\<exists>m. returned (send_message self clock outcome payload) =
              Inr (JDict [(''error'', JStr m),
                          (''payload'', JDict (payload_after (send_message self clock outcome payload)))])))"
proof -
  let ?sig = "[(''timestamp'', JStr (str_int clock)),
      (''sign'', JStr (b64encode (hmac_sha256 (utf8 (str_int clock @ [CHR 0x0A] @ sec)) [])))]"
  have g: "generate_sign self clock = ?sig"
    by (rule generate_sign_secret [OF assms])
  have p: "payload_after (send_message self clock outcome payload) = dict_update payload ?sig"
    by (simp add: payload_after_send_message g)
  have t: "map_of (dict_update payload ?sig) ''timestamp'' = Some (JStr (str_int clock))"
    by (simp add: map_of_dict_update_sign)
  have s: "map_of (dict_update payload ?sig) ''sign''
      = Some (JStr (b64encode (hmac_sha256 (utf8 (str_int clock @ [CHR 0x0A] @ sec)) [])))"
    by (simp add: map_of_dict_update_sign)
  have c: "map_of payload ''timestamp'' = None \<longrightarrow> dict_update payload ?sig \<noteq> payload"
    using dict_update_changes by blast
  have e1: "\<forall>m. outcome = PostRaises (RequestException m) \<longrightarrow>
            returned (send_message self clock outcome payload) =
              Inr (JDict [(''error'', JStr m), (''payload'', JDict (dict_update payload ?sig))])"
    by (simp add: returned_request_exception g)
  have e2: "\<forall>r. outcome = PostReturns r \<and> 400 \<le> status_code r \<and> status_code r < 600 \<longrightarrow>
            (\<exists>m. returned (send_message self clock outcome payload) =
              Inr (JDict [(''error'', JStr m), (''payload'', JDict (dict_update payload ?sig))]))"
    using returned_http_error [of _ self clock payload] g by fastforce
  show ?thesis
    unfolding p using t s c e1 e2 by blast
qed

theorem signature_fields_in_caller_payload_witness:
  "secret \<lparr>webhook_url = ''https://hook'', secret = Some ''s3cr3t''\<rparr> = Some ''s3cr3t'' \<and> ''s3cr3t'' \<noteq> [] \<and>
   payload_after (send_message \<lparr>webhook_url = ''https://hook'', secret = Some ''s3cr3t''\<rparr> 1700000000 (PostRaises (RequestException ''timeout''))
                    (card_payload JNull))
     = [(''msg_type'', JStr ''interactive''), (''card'', JNull),
        (''timestamp'', JStr ''1700000000''),
        (''sign'', JStr ''CNNNRL0wSY2j+cKcY98lQAfVvb21u/iW3phZyXRkmcY='')] \<and>
   returned (send_message \<lparr>webhook_url = ''https://hook'', secret = Some ''s3cr3t''\<rparr> 1700000000 (PostRaises (RequestException ''timeout''))
               (card_payload JNull))
     = Inr (JDict [(''error'', JStr ''timeout''),
                   (''payload'',
                      JDict [(''msg_type'', JStr ''interactive''), (''card'', JNull),
                             (''timestamp'', JStr ''1700000000''),
                             (''sign'', JStr ''CNNNRL0wSY2j+cKcY98lQAfVvb21u/iW3phZyXRkmcY='')])])"
proof -
  have a: "secret \<lparr>webhook_url = ''https://hook'', secret = Some ''s3cr3t''\<rparr> = Some ''s3cr3t''" by simp
  have b: "''s3cr3t'' \<noteq> []" by simp
  note v = signature_fields_in_caller_payload
             [OF a b, of 1700000000 "PostRaises (RequestException ''timeout'')" "card_payload JNull"]
  note w = v [unfolded sign_value_empty_message]
  from w [unfolded str_int_example] a b show ?thesis
    by (simp add: dict_update_def card_payload_def)
qed

section \<open>Properties of the polling loop\<close>

lemma last_checked_cycle: "last_checked (cycle cfg env st) = Aware (now_utc env)"
  by (simp add: cycle_def Let_def split: prod.splits)

lemma watermarks_are_clock_readings:
  "map instant (watermarks cfg envs st) = map now_utc envs"
  by (induction envs arbitrary: st) (simp_all add: last_checked_cycle)

subsection \<open>Claim C9\<close>

text \<open>
  C9, as the code has it.  After every iteration, whatever the poll and the deliveries
  did, \<open>last_checked\<close> is the clock reading taken at the end of that iteration; so the
  watermarks of a run are its clock readings.  An iteration moves the watermark backward
  exactly when its clock reading is earlier than the watermark it started with, and the
  watermark never moves backward in a run whose clock readings do not decrease and
  start at or after the reference time.
\<close>

theorem watermark_is_clock_reading:
  "last_checked (cycle cfg env st) = Aware (now_utc env) \<and>
   map instant (watermarks cfg envs st) = map now_utc envs \<and>
   (instant (last_checked (cycle cfg env st)) < instant (last_checked st)
      \<longleftrightarrow> now_utc env < instant (last_checked st)) \<and>
   (sorted (instant (last_checked st) # map now_utc envs) \<longrightarrow>
      sorted (map instant (last_checked st # watermarks cfg envs st)))"
  by (simp add: last_checked_cycle watermarks_are_clock_readings)

theorem watermark_is_clock_reading_witness:
  "sorted (instant (last_checked (init_state 5)) #
     map now_utc
       [\<lparr>fetch_outcome = Inr [],
           post_outcomes = (\<lambda>k. PostRaises (OtherException [])), now_utc = 7\<rparr>,
         \<lparr>fetch_outcome = Inl (OtherException []),
           post_outcomes = (\<lambda>k. PostRaises (OtherException [])), now_utc = 9\<rparr>]) \<and>
   sorted (map instant (last_checked (init_state 5) #
     watermarks \<lparr>webhook = ''https://hook'', debug_mode = False, fmt_time = (\<lambda>d. [])\<rparr>
       [\<lparr>fetch_outcome = Inr [],
           post_outcomes = (\<lambda>k. PostRaises (OtherException [])), now_utc = 7\<rparr>,
         \<lparr>fetch_outcome = Inl (OtherException []),
           post_outcomes = (\<lambda>k. PostRaises (OtherException [])), now_utc = 9\<rparr>]
       (init_state 5))) \<and>
   map instant
     (watermarks \<lparr>webhook = ''https://hook'', debug_mode = False, fmt_time = (\<lambda>d. [])\<rparr>
       [\<lparr>fetch_outcome = Inr [],
           post_outcomes = (\<lambda>k. PostRaises (OtherException [])), now_utc = 7\<rparr>,
         \<lparr>fetch_outcome = Inl (OtherException []),
           post_outcomes = (\<lambda>k. PostRaises (OtherException [])), now_utc = 9\<rparr>]
       (init_state 5)) = [7, 9]"
proof -
  have h: "sorted (instant (last_checked (init_state 5)) #
     map now_utc
       [\<lparr>fetch_outcome = Inr [],
           post_outcomes = (\<lambda>k. PostRaises (OtherException [])), now_utc = 7\<rparr>,
         \<lparr>fetch_outcome = Inl (OtherException []),
           post_outcomes = (\<lambda>k. PostRaises (OtherException [])), now_utc = 9\<rparr>])"
    by (simp add: init_state_def)
  from watermark_is_clock_reading
         [of "\<lparr>webhook = ''https://hook'', debug_mode = False, fmt_time = (\<lambda>d. [])\<rparr>" _ "init_state 5"
       "[\<lparr>fetch_outcome = Inr [],
           post_outcomes = (\<lambda>k. PostRaises (OtherException [])), now_utc = 7\<rparr>,
         \<lparr>fetch_outcome = Inl (OtherException []),
           post_outcomes = (\<lambda>k. PostRaises (OtherException [])), now_utc = 9\<rparr>]"] h
  show ?thesis by simp
qed

text \<open>
  C9 as stated fails when the reference time lies after the first clock reading: the
  first iteration then moves the watermark backward.
\<close>

theorem future_reference_time_counterexample:
  "instant (last_checked
      (cycle \<lparr>webhook = ''https://hook'', debug_mode = False, fmt_time = (\<lambda>d. [])\<rparr>
         \<lparr>fetch_outcome = Inr [],
           post_outcomes = (\<lambda>k. PostRaises (OtherException [])), now_utc = 50\<rparr>
         (init_state 100)))
     < instant (last_checked (init_state 100)) \<and>
   last_checked
      (run \<lparr>webhook = ''https://hook'', debug_mode = False, fmt_time = (\<lambda>d. [])\<rparr>
         [\<lparr>fetch_outcome = Inr [],
           post_outcomes = (\<lambda>k. PostRaises (OtherException [])), now_utc = 50\<rparr>]
         (init_state 100)) = Aware 50"
  by (simp add: last_checked_cycle init_state_def)

subsection \<open>Claim C4\<close>

text \<open>
  C4 fails on the code.  A fetch that returns the same id twice, both entries newer than
  the watermark, puts both into \<open>new_notifications\<close>, because \<open>sent_entries\<close> is tested
  before either is sent; the loop then passes a card for each to \<open>send_card_message\<close>.
  One iteration on such a feed delivers the id \<open>a\<close> twice.
\<close>

theorem duplicate_id_delivered_twice:
  "delivered
     (cycle \<lparr>webhook = ''https://hook'', debug_mode = False, fmt_time = (\<lambda>d. [])\<rparr>
        \<lparr>fetch_outcome =
            Inr [\<lparr>id_field = Some ''a'', link = Some ''l'', published_parsed = Parsed 6,
                  title = Some ''t'', summary = Some ''s''\<rparr>,
                 \<lparr>id_field = Some ''a'', link = Some ''l'', published_parsed = Parsed 6,
                  title = Some ''t'', summary = Some ''s''\<rparr>],
          post_outcomes =
            (\<lambda>k. PostReturns \<lparr>status_code = 200, reason = ''OK'', url = ''https://hook'',
                                json_result = Inr (JDict [(''code'', JInt 0)])\<rparr>),
          now_utc = 7000000\<rparr>
        (init_state 5000000))
   = [''a'', ''a'']"
  by (simp add: cycle_def get_new_notifications_def entry_id_def utc_datetime_def init_state_def
      send_card_message_def send_message_def raise_for_status_def generate_sign_def Let_def)

end
